theory Spec2Isabelle
  imports Main
begin

section \<open>Data model\<close>

text \<open>
  The rows of the hosted database, as the components read and write them
  (\<open>src/lib/supabase.ts\<close> and the \<open>reservations\<close>, \<open>equipment\<close> and \<open>kit_equipment\<close>
  tables of the first migration). A \<open>date\<close> column is a calendar day, modelled by its day
  number (days since 1970-01-01); a uuid and a URL are strings.
\<close>

type_synonym uuid = string
type_synonym date = int
type_synonym url = string
type_synonym upload_file = string

text \<open>\<open>'agendado' | 'em uso' | 'concluido' | 'cancelado'\<close>\<close>

datatype reservation_status = R_agendado | R_em_uso | R_concluido | R_cancelado

text \<open>\<open>'disponivel' | 'reservado' | 'em uso'\<close>\<close>

datatype equipment_status = E_disponivel | E_reservado | E_em_uso

text \<open>The strings \<open>getKitStatus\<close> returns: \<open>'vazio'\<close>, \<open>'disponivel'\<close>, \<open>'em uso'\<close>, \<open>'reservado'\<close>.\<close>

datatype kit_status = K_vazio | K_disponivel | K_em_uso | K_reservado

record equipment =
  eid :: uuid
  name :: string
  estatus :: equipment_status

record kit_equipment =
  ke_kit_id :: uuid
  ke_equipment_id :: uuid

text \<open>
  A reservation row; \<open>equipment_id\<close> and \<open>kit_id\<close> are nullable. \<open>pickup_completed\<close>,
  \<open>pickup_date\<close> and \<open>email_sent\<close> are the columns that \<open>handlePickup\<close> writes. The
  migrations at hand do not declare them: they are taken to exist, as the handler takes
  them to, with the defaults false and null.
\<close>

record reservation =
  rid :: uuid
  user_id :: uuid
  equipment_id :: "uuid option"
  kit_id :: "uuid option"
  start_date :: date
  end_date :: date
  reason :: string
  status :: reservation_status
  pickup_photos :: "url list"
  return_photos :: "url list"
  pickup_completed :: bool
  pickup_date :: "date option"
  email_sent :: bool

text \<open>\<open>KitWithEquipment\<close> of the kit list: a kit together with its member equipment rows.\<close>

record kitWithEquipment =
  kid :: uuid
  equipment :: "equipment list"

text \<open>The signed-in user's profile, as \<open>useAuth\<close> provides it (\<open>None\<close> when signed out).\<close>

record profile =
  pid :: uuid
  email :: string
  full_name :: string

section \<open>The remote services\<close>

text \<open>
  Every remote call a component issues is recorded in the order of issue. The three
  updates of a reservation row are told apart by the fields they write.
\<close>

datatype reservationType = EquipmentType | KitType

text \<open>The object \<open>reservationData\<close> that \<open>handleSubmit\<close> inserts.\<close>

record reservationData =
  d_user_id :: uuid
  d_start_date :: "date option"
  d_end_date :: "date option"
  d_reason :: string
  d_status :: reservation_status
  d_pickup_photos :: "url list"
  d_equipment_id :: "uuid option"
  d_kit_id :: "uuid option"

datatype reservation_patch =
    PickupPatch "url list" date
  | EmailSentPatch
  | ReturnPatch "url list"

datatype remote_call =
    StorageUpload string upload_file
  | SelectReservations reservationType uuid date date
  | InsertReservation reservationData
  | UpdateReservation uuid reservation_patch
  | UpdateEquipment "uuid list" equipment_status
  | SelectKitEquipment uuid
  | PostSummaryEmail uuid

text \<open>What \<open>fetch\<close> gives for the notification POST: it rejects, or answers with \<open>response.ok\<close>.\<close>

datatype fetch_result = NetworkError | HttpResponse bool

datatype console_entry = ErrorSendingEmail | ErrorCallingEmailFunction

text \<open>
  The stored state, as the signed-in user's client reaches it: the rows of the three
  tables, the objects of the storage bucket, and what the client has issued and logged so
  far.
\<close>

record world =
  reservations :: "reservation list"
  equipment_rows :: "equipment list"
  kit_equipment_rows :: "kit_equipment list"
  bucket :: "url list"
  calls :: "remote_call list"
  console :: "console_entry list"

text \<open>
  What the client does not decide: whether the hosted backend performs a call or not
  (\<open>ok\<close>: the network, the constraints that are not written out below and the row-level
  policies of the migrations are the backend's; a call it does not perform changes nothing
  and is answered with an error), the public URL of an uploaded file (its object name is
  random),
  the id the database generates for an inserted row, the outcome of the notification POST,
  the clock (milliseconds since the epoch, UTC) and the browser's time zone (local time
  minus UTC, in milliseconds).
\<close>

record env =
  ok :: "remote_call \<Rightarrow> bool"
  publicUrl :: "string \<Rightarrow> upload_file \<Rightarrow> url"
  new_id :: uuid
  fetch :: fetch_result
  now :: int
  utc_offset :: int

datatype error =
    NotAuthenticated
  | NoPickupPhoto
  | NotAvailable
  | NoPickupSelection
  | NoReturnSelection
  | NoReturnPhoto
  | ReservationNotFound
  | UploadError
  | InsertError
  | UpdateError

definition issue :: "remote_call \<Rightarrow> world \<Rightarrow> world" where
  "issue c w = w\<lparr>calls := calls w @ [c]\<rparr>"

section \<open>ReservationForm: the availability check\<close>

record formData =
  selectedId :: string
  startDate :: "date option"
  endDate :: "date option"
  form_reason :: string

text \<open>
  The filter of the query in \<open>checkAvailability\<close>:
  \<open>.eq(field, selectedId).in('status', ['agendado', 'em uso'])
   .or(`start_date.lte.${endDate},end_date.gte.${startDate}`)\<close>.
  The two date conditions are the alternatives of one \<open>or\<close> filter.
\<close>

definition conflict_filter :: "reservationType \<Rightarrow> uuid \<Rightarrow> date \<Rightarrow> date \<Rightarrow> reservation \<Rightarrow> bool" where
  "conflict_filter rt sel endD startD r =
     ((case rt of EquipmentType \<Rightarrow> equipment_id r | KitType \<Rightarrow> kit_id r) = Some sel
      \<and> (status r = R_agendado \<or> status r = R_em_uso)
      \<and> (start_date r \<le> endD \<or> end_date r \<ge> startD))"

text \<open>
  \<open>checkAvailability\<close>: an empty field of the form (the empty string; for a date input,
  \<open>None\<close>) answers \<open>true\<close> at once; otherwise the query is issued and the answer is
  \<open>!data || data.length === 0\<close>, where \<open>data\<close> is null when the query failed.
\<close>

definition checkAvailability :: "env \<Rightarrow> reservationType \<Rightarrow> formData \<Rightarrow> world \<Rightarrow> bool \<times> world" where
  "checkAvailability net rt f w =
     (if selectedId f = [] \<or> startDate f = None \<or> endDate f = None then (True, w)
      else
        let s = the (startDate f);
            e = the (endDate f);
            c = SelectReservations rt (selectedId f) e s;
            data = (if ok net c
                    then Some (filter (conflict_filter rt (selectedId f) e s) (reservations w))
                    else None)
        in (case data of None \<Rightarrow> True | Some rows \<Rightarrow> length rows = 0, issue c w))"


section \<open>The calls to the hosted backend\<close>

text \<open>
  \<open>uploadImage\<close> (\<open>utils/imageUpload\<close>): uploads the file under the folder and returns its
  public URL; it throws when the upload is answered with an error.
\<close>

definition uploadImage :: "env \<Rightarrow> upload_file \<Rightarrow> string \<Rightarrow> world \<Rightarrow> (error + url) \<times> world" where
  "uploadImage net photo folder w =
     (let c = StorageUpload folder photo; w1 = issue c w
      in if ok net c
         then (Inr (publicUrl net folder photo), w1\<lparr>bucket := bucket w1 @ [publicUrl net folder photo]\<rparr>)
         else (Inl UploadError, w1))"

text \<open>
  \<open>Promise.all(photos.map(photo => uploadImage(photo, folder)))\<close>: every upload is started;
  the result is the list of URLs, or the first error. Objects already stored stay stored.
\<close>

fun uploadAll :: "env \<Rightarrow> string \<Rightarrow> upload_file list \<Rightarrow> world \<Rightarrow> (error + url list) \<times> world" where
  "uploadAll net folder [] w = (Inr [], w)"
| "uploadAll net folder (photo # photos) w =
     (let (r, w1) = uploadImage net photo folder w;
          (rs, w2) = uploadAll net folder photos w1
      in (case r of
            Inl e \<Rightarrow> Inl e
          | Inr u \<Rightarrow> (case rs of Inl e \<Rightarrow> Inl e | Inr us \<Rightarrow> Inr (u # us)), w2))"

text \<open>
  The constraints of the \<open>reservations\<close> table that an inserted row must meet: both dates
  present, \<open>end_date >= start_date\<close>, and exactly one of \<open>equipment_id\<close> and \<open>kit_id\<close>, which
  is a uuid (not the empty string).
\<close>

definition table_constraints :: "reservationData \<Rightarrow> bool" where
  "table_constraints d =
     (case (d_start_date d, d_end_date d) of
        (Some s, Some e) \<Rightarrow>
          s \<le> e \<and>
          (case (d_equipment_id d, d_kit_id d) of
             (Some i, None) \<Rightarrow> i \<noteq> []
           | (None, Some k) \<Rightarrow> k \<noteq> []
           | _ \<Rightarrow> False)
      | _ \<Rightarrow> False)"

text \<open>The stored row: the columns the client does not send take their defaults.\<close>

definition new_row :: "env \<Rightarrow> reservationData \<Rightarrow> reservation" where
  "new_row net d =
     \<lparr>rid = new_id net, user_id = d_user_id d,
      equipment_id = d_equipment_id d, kit_id = d_kit_id d,
      start_date = the (d_start_date d), end_date = the (d_end_date d),
      reason = d_reason d, status = d_status d,
      pickup_photos = d_pickup_photos d, return_photos = [],
      pickup_completed = False, pickup_date = None, email_sent = False\<rparr>"

text \<open>\<open>supabase.from('reservations').insert([reservationData])\<close>, giving \<open>error\<close>.\<close>

definition insert_reservation :: "env \<Rightarrow> reservationData \<Rightarrow> world \<Rightarrow> error option \<times> world" where
  "insert_reservation net d w =
     (let c = InsertReservation d; w1 = issue c w
      in if ok net c \<and> table_constraints d
         then (None, w1\<lparr>reservations := reservations w1 @ [new_row net d]\<rparr>)
         else (Some InsertError, w1))"

definition apply_patch :: "reservation_patch \<Rightarrow> reservation \<Rightarrow> reservation" where
  "apply_patch p r =
     (case p of
        PickupPatch urls d \<Rightarrow>
          r\<lparr>status := R_em_uso, pickup_photos := urls,
            pickup_completed := True, pickup_date := Some d\<rparr>
      | EmailSentPatch \<Rightarrow> r\<lparr>email_sent := True\<rparr>
      | ReturnPatch urls \<Rightarrow> r\<lparr>status := R_concluido, return_photos := urls\<rparr>)"

text \<open>\<open>supabase.from('reservations').update(patch).eq('id', i)\<close>, giving \<open>error\<close>.\<close>

definition update_reservation :: "env \<Rightarrow> uuid \<Rightarrow> reservation_patch \<Rightarrow> world \<Rightarrow> error option \<times> world" where
  "update_reservation net i p w =
     (let c = UpdateReservation i p; w1 = issue c w
      in if ok net c
         then (None, w1\<lparr>reservations :=
                 map (\<lambda>r. if rid r = i then apply_patch p r else r) (reservations w1)\<rparr>)
         else (Some UpdateError, w1))"

text \<open>
  \<open>supabase.from('equipment').update({ status }).eq('id', i)\<close> (a one-element list) and
  \<open>.in('id', ids)\<close>. No caller reads the answer.
\<close>

definition update_equipment :: "env \<Rightarrow> uuid list \<Rightarrow> equipment_status \<Rightarrow> world \<Rightarrow> world" where
  "update_equipment net ids st w =
     (let c = UpdateEquipment ids st; w1 = issue c w
      in if ok net c
         then w1\<lparr>equipment_rows :=
                 map (\<lambda>e. if eid e \<in> set ids then e\<lparr>estatus := st\<rparr> else e) (equipment_rows w1)\<rparr>
         else w1)"

text \<open>
  \<open>supabase.from('kit_equipment').select('equipment_id').eq('kit_id', k)\<close> followed by
  \<open>kitEquipment.map(ke => ke.equipment_id)\<close>; \<open>None\<close> is \<open>data === null\<close>.
\<close>

definition select_kit_equipment :: "env \<Rightarrow> uuid \<Rightarrow> world \<Rightarrow> uuid list option \<times> world" where
  "select_kit_equipment net k w =
     (let c = SelectKitEquipment k
      in (if ok net c
          then Some (map ke_equipment_id (filter (\<lambda>ke. ke_kit_id ke = k) (kit_equipment_rows w)))
          else None, issue c w))"

text \<open>
  The fan-out to the members of a kit, written alike in the three handlers:
  \<open>if (kitEquipment) { ... update({ status }).in('id', equipmentIds) }\<close>.
\<close>

definition update_kit_members :: "env \<Rightarrow> uuid \<Rightarrow> equipment_status \<Rightarrow> world \<Rightarrow> world" where
  "update_kit_members net k st w =
     (let (kitEquipment, w1) = select_kit_equipment net k w
      in (case kitEquipment of
            None \<Rightarrow> w1
          | Some equipmentIds \<Rightarrow> update_equipment net equipmentIds st w1))"

text \<open>JavaScript truthiness of an optional string: neither null/undefined nor empty.\<close>

definition truthy :: "string option \<Rightarrow> bool" where
  "truthy x = (case x of None \<Rightarrow> False | Some s \<Rightarrow> s \<noteq> [])"

section \<open>ReservationForm: creating a reservation\<close>

definition handleSubmit ::
  "env \<Rightarrow> profile option \<Rightarrow> reservationType \<Rightarrow> formData \<Rightarrow> upload_file list \<Rightarrow> world
     \<Rightarrow> (error + unit) \<times> world" where
  "handleSubmit net prof rt f pickupPhotos w =
     (case prof of
        None \<Rightarrow> (Inl NotAuthenticated, w)
      | Some p \<Rightarrow>
          if length pickupPhotos = 0 then (Inl NoPickupPhoto, w)
          else
            let (isAvailable, w1) = checkAvailability net rt f w
            in if \<not> isAvailable then (Inl NotAvailable, w1)
               else
                 let (up, w2) = uploadAll net (''reservations/'' @ pid p) pickupPhotos w1
                 in (case up of
                       Inl e \<Rightarrow> (Inl e, w2)
                     | Inr photoUrls \<Rightarrow>
                         let reservationData =
                               \<lparr>d_user_id = pid p,
                                d_start_date = startDate f,
                                d_end_date = endDate f,
                                d_reason = form_reason f,
                                d_status = R_em_uso,
                                d_pickup_photos = photoUrls,
                                d_equipment_id =
                                  (if rt = EquipmentType then Some (selectedId f) else None),
                                d_kit_id =
                                  (if rt = EquipmentType then None else Some (selectedId f))\<rparr>;
                             (insertError, w3) = insert_reservation net reservationData w2
                         in (case insertError of
                               Some e \<Rightarrow> (Inl e, w3)
                             | None \<Rightarrow>
                                 (Inr (),
                                  if rt = EquipmentType
                                  then update_equipment net [selectedId f] E_em_uso w3
                                  else update_kit_members net (selectedId f) E_em_uso w3))))"

section \<open>PickupEquipment: the pickup\<close>

definition ms_per_day :: int where
  "ms_per_day = 86400000"

text \<open>
  \<open>sendSummaryEmail\<close>: one POST; a rejected \<open>fetch\<close> and a response that is not OK are
  written to the console and nothing is thrown.
\<close>

definition sendSummaryEmail :: "env \<Rightarrow> profile option \<Rightarrow> reservation \<Rightarrow> world \<Rightarrow> world" where
  "sendSummaryEmail net prof reservation w =
     (case prof of
        None \<Rightarrow> w
      | Some p \<Rightarrow>
          let w1 = issue (PostSummaryEmail (rid reservation)) w
          in (case fetch net of
                NetworkError \<Rightarrow> w1\<lparr>console := console w1 @ [ErrorCallingEmailFunction]\<rparr>
              | HttpResponse response_ok \<Rightarrow>
                  if \<not> response_ok then w1\<lparr>console := console w1 @ [ErrorSendingEmail]\<rparr>
                  else w1))"

text \<open>
  \<open>handlePickup\<close>; \<open>rs\<close> is the component's \<open>reservations\<close> prop, the rows loaded earlier.
  \<open>new Date().toISOString().split('T')[0]\<close> is the UTC day of the clock.
\<close>

definition handlePickup ::
  "env \<Rightarrow> profile option \<Rightarrow> reservation list \<Rightarrow> string \<Rightarrow> upload_file list \<Rightarrow> world
     \<Rightarrow> (error + unit) \<times> world" where
  "handlePickup net prof rs selectedReservationId pickupPhotos w =
     (if selectedReservationId = [] then (Inl NoPickupSelection, w)
      else if length pickupPhotos = 0 then (Inl NoPickupPhoto, w)
      else
        case find (\<lambda>r. rid r = selectedReservationId) rs of
          None \<Rightarrow> (Inl ReservationNotFound, w)
        | Some reservation \<Rightarrow>
            (case prof of
               None \<Rightarrow> (Inl NotAuthenticated, w)
             | Some p \<Rightarrow>
                 let (up, w1) = uploadAll net (''reservations/'' @ pid p) pickupPhotos w
                 in (case up of
                       Inl e \<Rightarrow> (Inl e, w1)
                     | Inr photoUrls \<Rightarrow>
                         let w2 = snd (update_reservation net selectedReservationId
                                         (PickupPatch photoUrls (now net div ms_per_day)) w1);
                             w3 = (if truthy (equipment_id reservation)
                                   then update_equipment net [the (equipment_id reservation)]
                                          E_em_uso w2
                                   else if truthy (kit_id reservation)
                                   then update_kit_members net (the (kit_id reservation))
                                          E_em_uso w2
                                   else w2);
                             w4 = snd (update_reservation net selectedReservationId
                                         EmailSentPatch w3);
                             w5 = sendSummaryEmail net prof reservation w4
                         in (Inr (), w5))))"

section \<open>ReturnEquipment: the return\<close>

definition handleReturn ::
  "env \<Rightarrow> reservation list \<Rightarrow> string \<Rightarrow> upload_file list \<Rightarrow> world \<Rightarrow> (error + unit) \<times> world" where
  "handleReturn net rs selectedReservationId returnPhotos w =
     (if selectedReservationId = [] then (Inl NoReturnSelection, w)
      else if length returnPhotos = 0 then (Inl NoReturnPhoto, w)
      else
        case find (\<lambda>r. rid r = selectedReservationId) rs of
          None \<Rightarrow> (Inl ReservationNotFound, w)
        | Some reservation \<Rightarrow>
            let (up, w1) = uploadAll net (''returns/'' @ user_id reservation) returnPhotos w
            in (case up of
                  Inl e \<Rightarrow> (Inl e, w1)
                | Inr photoUrls \<Rightarrow>
                    let (updateError, w2) =
                          update_reservation net selectedReservationId (ReturnPatch photoUrls) w1
                    in (case updateError of
                          Some e \<Rightarrow> (Inl e, w2)
                        | None \<Rightarrow>
                            (Inr (),
                             if truthy (equipment_id reservation)
                             then update_equipment net [the (equipment_id reservation)]
                                    E_disponivel w2
                             else if truthy (kit_id reservation)
                             then update_kit_members net (the (kit_id reservation))
                                    E_disponivel w2
                             else w2))))"

section \<open>KitList: the derived status of a kit\<close>

definition getKitStatus :: "kitWithEquipment \<Rightarrow> kit_status" where
  "getKitStatus kit =
     (if length (equipment kit) = 0 then K_vazio
      else
        let allAvailable = list_all (\<lambda>eq. estatus eq = E_disponivel) (equipment kit)
        in if allAvailable then K_disponivel
           else
             let anyInUse = list_ex (\<lambda>eq. estatus eq = E_em_uso) (equipment kit)
             in if anyInUse then K_em_uso else K_reservado)"

section \<open>ReservationCalendar: eligibility for pickup\<close>

text \<open>
  \<open>new Date(s)\<close> for a date-only string \<open>'YYYY-MM-DD'\<close> (what a \<open>date\<close> column serialises to)
  is midnight UTC of that day. This is the date-only form with a four-digit year; a day
  beyond the year 9999 serialises otherwise and is outside this definition.
\<close>

definition new_Date :: "date \<Rightarrow> int" where
  "new_Date d = d * ms_per_day"

text \<open>
  \<open>t.setHours(0, 0, 0, 0)\<close>: the instant of midnight, local time, of the local day that the
  instant \<open>t\<close> falls on.
\<close>

definition setHours0 :: "int \<Rightarrow> int \<Rightarrow> int" where
  "setHours0 offset t = ((t + offset) div ms_per_day) * ms_per_day - offset"

definition isPickupEligible :: "env \<Rightarrow> reservation \<Rightarrow> bool" where
  "isPickupEligible net reservation =
     (if status reservation \<noteq> R_agendado then False
      else
        let today = setHours0 (utc_offset net) (now net);
            start = setHours0 (utc_offset net) (new_Date (start_date reservation))
        in start \<le> today)"

text \<open>The calendar day, in the browser's time zone, of the clock: today's date.\<close>

definition local_day :: "env \<Rightarrow> date" where
  "local_day net = (now net + utc_offset net) div ms_per_day"

section \<open>The status invariant of the data model\<close>

text \<open>The equipment ids of the membership rows of a kit.\<close>

definition member_ids :: "uuid \<Rightarrow> world \<Rightarrow> uuid list" where
  "member_ids k w = map ke_equipment_id (filter (\<lambda>ke. ke_kit_id ke = k) (kit_equipment_rows w))"




section \<open>Concrete states used below\<close>

text \<open>A backend that performs every call, in a browser on UTC.\<close>

definition all_ok :: env where
  "all_ok = \<lparr>ok = (\<lambda>c. True), publicUrl = (\<lambda>folder photo. folder @ ''/'' @ photo),
             new_id = ''r9'', fetch = HttpResponse True, now = 0, utc_offset = 0\<rparr>"

definition cam_available :: equipment where
  "cam_available = \<lparr>eid = ''e1'', name = ''camera'', estatus = E_disponivel\<rparr>"

definition cam_in_use :: equipment where
  "cam_in_use = \<lparr>eid = ''e1'', name = ''camera'', estatus = E_em_uso\<rparr>"

definition mic_available :: equipment where
  "mic_available = \<lparr>eid = ''e2'', name = ''microphone'', estatus = E_disponivel\<rparr>"

definition tripod_available :: equipment where
  "tripod_available = \<lparr>eid = ''e3'', name = ''tripod'', estatus = E_disponivel\<rparr>"

text \<open>A scheduled reservation of equipment \<open>e1\<close> for days 10 to 12.\<close>

definition booked_10_12 :: reservation where
  "booked_10_12 =
     \<lparr>rid = ''r1'', user_id = ''u1'', equipment_id = Some ''e1'', kit_id = None,
      start_date = 10, end_date = 12, reason = ''shooting'', status = R_agendado,
      pickup_photos = [], return_photos = [],
      pickup_completed = False, pickup_date = None, email_sent = False\<rparr>"

definition world_10_12 :: world where
  "world_10_12 =
     \<lparr>reservations = [booked_10_12], equipment_rows = [cam_available],
      kit_equipment_rows = [], bucket = [], calls = [], console = []\<rparr>"

definition form_13_15 :: formData where
  "form_13_15 =
     \<lparr>selectedId = ''e1'', startDate = Some 13, endDate = Some 15, form_reason = ''interview''\<rparr>"

text \<open>
  Kit \<open>k1\<close> with members \<open>e1\<close>, \<open>e2\<close>, \<open>e3\<close>; \<open>e1\<close> is in use under a reservation of its own
  (\<open>r2\<close>, days 10 to 12). In the second state \<open>e1\<close> is available instead.
\<close>

definition cam_taken :: reservation where
  "cam_taken =
     \<lparr>rid = ''r2'', user_id = ''u2'', equipment_id = Some ''e1'', kit_id = None,
      start_date = 10, end_date = 12, reason = ''shooting'', status = R_em_uso,
      pickup_photos = [''p.jpg''], return_photos = [],
      pickup_completed = False, pickup_date = None, email_sent = False\<rparr>"

definition kit_members :: "kit_equipment list" where
  "kit_members =
     [\<lparr>ke_kit_id = ''k1'', ke_equipment_id = ''e1''\<rparr>,
      \<lparr>ke_kit_id = ''k1'', ke_equipment_id = ''e2''\<rparr>,
      \<lparr>ke_kit_id = ''k1'', ke_equipment_id = ''e3''\<rparr>]"

definition kit_world_in_use :: world where
  "kit_world_in_use =
     \<lparr>reservations = [cam_taken],
      equipment_rows = [cam_in_use, mic_available, tripod_available],
      kit_equipment_rows = kit_members, bucket = [], calls = [], console = []\<rparr>"

definition kit_world_free :: world where
  "kit_world_free =
     \<lparr>reservations = [cam_taken],
      equipment_rows = [cam_available, mic_available, tripod_available],
      kit_equipment_rows = kit_members, bucket = [], calls = [], console = []\<rparr>"

definition kit_form :: formData where
  "kit_form =
     \<lparr>selectedId = ''k1'', startDate = Some 10, endDate = Some 12, form_reason = ''event''\<rparr>"

text \<open>
  A browser in Brazil (UTC-3) at noon, local time, of day 20097 (2025-01-09), and a
  scheduled reservation that starts on day 20098 (2025-01-10).
\<close>

definition brazil_noon :: env where
  "brazil_noon = all_ok\<lparr>now := 20097 * 86400000 + 54000000, utc_offset := - 10800000\<rparr>"

definition starts_tomorrow :: reservation where
  "starts_tomorrow = booked_10_12\<lparr>start_date := 20098, end_date := 20099\<rparr>"

text \<open>
  The user \<open>u1\<close>; a shelf with one available camera and no reservation; a form for days 5
  to 7; a backend that answers every update of the equipment table with an error; a
  notification endpoint that cannot be reached.
\<close>

definition user_u1 :: profile where
  "user_u1 = \<lparr>pid = ''u1'', email = ''ana@example.org'', full_name = ''Ana Souza''\<rparr>"




definition offline_mail :: env where
  "offline_mail = all_ok\<lparr>fetch := NetworkError\<rparr>"

text \<open>A backend that refuses the update \<open>{ email_sent: true }\<close> of reservation \<open>r1\<close>.\<close>

definition flag_rejected :: env where
  "flag_rejected = all_ok\<lparr>ok := (\<lambda>c. c \<noteq> UpdateReservation ''r1'' EmailSentPatch)\<rparr>"





section \<open>Properties of the availability check\<close>

lemma checkAvailability_query:
  assumes "selectedId f \<noteq> []" "startDate f = Some s" "endDate f = Some e"
    and "ok net (SelectReservations rt (selectedId f) e s)"
  shows "fst (checkAvailability net rt f w)
           = (\<not> (\<exists>r \<in> set (reservations w). conflict_filter rt (selectedId f) e s r))"
  using assms by (auto simp: checkAvailability_def Let_def filter_empty_conv)

text \<open>
  With date ranges in order, the date alternatives of the filter hold for every row: any
  active reservation of the target is a conflict, whatever its dates.
\<close>

lemma conflict_filter_ordered_ranges:
  assumes "start_date r \<le> end_date r" "s \<le> e"
  shows "conflict_filter rt sel e s r
           = ((case rt of EquipmentType \<Rightarrow> equipment_id r | KitType \<Rightarrow> kit_id r) = Some sel
              \<and> (status r = R_agendado \<or> status r = R_em_uso))"
  using assms by (auto simp: conflict_filter_def)

text \<open>
  C1. The claim: the check answers false exactly when an active reservation of the target
  satisfies \<open>existing.start <= candidate.end AND existing.end >= candidate.start\<close>, so days
  13 to 15 after a reservation of days 10 to 12 are available. The code: the reservation of
  days 10 to 12 does not meet that test for days 13 to 15, and the check answers false.
\<close>

theorem checkAvailability_rejects_13_15_after_10_12:
  "\<not> (start_date booked_10_12 \<le> 15 \<and> end_date booked_10_12 \<ge> 13)
   \<and> fst (checkAvailability all_ok EquipmentType form_13_15 world_10_12) = False"
  by (simp add: checkAvailability_def conflict_filter_def all_ok_def form_13_15_def
      world_10_12_def booked_10_12_def)

text \<open>
  C9. If the target id, the start date or the end date of the form is empty,
  \<open>checkAvailability\<close> answers true and issues no query: the state, with its record of the
  calls issued, is as before.
\<close>

theorem checkAvailability_incomplete_form:
  assumes "selectedId f = [] \<or> startDate f = None \<or> endDate f = None"
  shows "checkAvailability net rt f w = (True, w)"
  using assms by (auto simp: checkAvailability_def)

theorem checkAvailability_incomplete_form_witness:
  "checkAvailability all_ok EquipmentType (form_13_15\<lparr>endDate := None\<rparr>) world_10_12
     = (True, world_10_12)"
  using checkAvailability_incomplete_form
          [of "form_13_15\<lparr>endDate := None\<rparr>" all_ok EquipmentType world_10_12]
  by simp

text \<open>
  C5. Two states with the same reservation rows get the same answer from the availability
  check, for any target and window, whatever their equipment rows are; and a kit that no
  reservation row references is available, whatever the status of its members.
\<close>

theorem checkAvailability_reads_reservations_only:
  "(reservations w1 = reservations w2 \<longrightarrow>
      fst (checkAvailability net rt f w1) = fst (checkAvailability net rt f w2))
   \<and> ((\<forall>r \<in> set (reservations w). kit_id r \<noteq> Some (selectedId f)) \<longrightarrow>
      fst (checkAvailability net KitType f w))"
  by (auto simp: checkAvailability_def Let_def conflict_filter_def filter_empty_conv)

theorem checkAvailability_reads_reservations_only_witness:
  "reservations kit_world_in_use = reservations kit_world_free
   \<and> equipment_rows kit_world_in_use \<noteq> equipment_rows kit_world_free
   \<and> map kit_id (reservations kit_world_in_use) = [None]
   \<and> fst (checkAvailability all_ok KitType kit_form kit_world_in_use)
   \<and> fst (checkAvailability all_ok KitType kit_form kit_world_in_use)
       = fst (checkAvailability all_ok KitType kit_form kit_world_free)"
proof -
  have same: "reservations kit_world_in_use = reservations kit_world_free"
    by (simp add: kit_world_in_use_def kit_world_free_def)
  have differ: "equipment_rows kit_world_in_use \<noteq> equipment_rows kit_world_free"
    by (simp add: kit_world_in_use_def kit_world_free_def cam_in_use_def cam_available_def)
  have none: "\<forall>r \<in> set (reservations kit_world_in_use). kit_id r \<noteq> Some (selectedId kit_form)"
    by (simp add: kit_world_in_use_def cam_taken_def)
  note inst = checkAvailability_reads_reservations_only
         [of kit_world_in_use kit_world_free all_ok KitType kit_form kit_world_in_use]
  from inst same have eq: "fst (checkAvailability all_ok KitType kit_form kit_world_in_use)
       = fst (checkAvailability all_ok KitType kit_form kit_world_free)"
    by blast
  from inst none have avail: "fst (checkAvailability all_ok KitType kit_form kit_world_in_use)"
    by blast
  have rows: "map kit_id (reservations kit_world_in_use) = [None]"
    by (simp add: kit_world_in_use_def cam_taken_def)
  from same differ rows avail eq show ?thesis
    by blast
qed

section \<open>Properties of the derived kit status\<close>

text \<open>
  C4. \<open>getKitStatus\<close> is \<open>'vazio'\<close> for a kit without members; otherwise \<open>'disponivel'\<close> if
  every member is available; otherwise \<open>'em uso'\<close> if some member is in use; otherwise
  \<open>'reservado'\<close>.
\<close>

theorem getKitStatus_rule:
  "getKitStatus kit =
     (if equipment kit = [] then K_vazio
      else if (\<forall>eq \<in> set (equipment kit). estatus eq = E_disponivel) then K_disponivel
      else if (\<exists>eq \<in> set (equipment kit). estatus eq = E_em_uso) then K_em_uso
      else K_reservado)"
  by (simp add: getKitStatus_def list_all_iff list_ex_iff)

theorem getKitStatus_rule_witness:
  "getKitStatus \<lparr>kid = ''k1'', equipment = []\<rparr> = K_vazio
   \<and> getKitStatus \<lparr>kid = ''k1'', equipment = [cam_available, mic_available]\<rparr> = K_disponivel
   \<and> getKitStatus \<lparr>kid = ''k1'', equipment = [cam_in_use, mic_available]\<rparr> = K_em_uso
   \<and> getKitStatus \<lparr>kid = ''k1'', equipment = [mic_available\<lparr>estatus := E_reservado\<rparr>]\<rparr>
       = K_reservado"
  using getKitStatus_rule [of "\<lparr>kid = ''k1'', equipment = []\<rparr>"]
    getKitStatus_rule [of "\<lparr>kid = ''k1'', equipment = [cam_available, mic_available]\<rparr>"]
    getKitStatus_rule [of "\<lparr>kid = ''k1'', equipment = [cam_in_use, mic_available]\<rparr>"]
    getKitStatus_rule [of "\<lparr>kid = ''k1'', equipment = [mic_available\<lparr>estatus := E_reservado\<rparr>]\<rparr>"]
  by (simp add: cam_available_def cam_in_use_def mic_available_def)

section \<open>Properties of the pickup eligibility\<close>

text \<open>
  What \<open>isPickupEligible\<close> compares: the local day of midnight UTC of the start date with
  the local day of the clock.
\<close>

lemma setHours0_le_iff:
  "(setHours0 offset a \<le> setHours0 offset b)
     = ((a + offset) div ms_per_day \<le> (b + offset) div ms_per_day)"
  by (simp add: setHours0_def ms_per_day_def)

lemma isPickupEligible_days:
  "isPickupEligible net r
     = (status r = R_agendado
        \<and> (new_Date (start_date r) + utc_offset net) div ms_per_day \<le> local_day net)"
  by (simp add: isPickupEligible_def Let_def setHours0_le_iff local_day_def)

text \<open>In a time zone at or east of UTC, that is the rule "today is on or after the start date".\<close>

lemma isPickupEligible_east_of_utc:
  assumes "0 \<le> utc_offset net" "utc_offset net < ms_per_day"
  shows "isPickupEligible net r = (status r = R_agendado \<and> start_date r \<le> local_day net)"
proof -
  have "(start_date r * ms_per_day + utc_offset net) div ms_per_day = start_date r"
    using assms by (simp add: ms_per_day_def)
  then show ?thesis
    by (simp add: isPickupEligible_days new_Date_def)
qed

text \<open>
  C6. The claim: a reservation is eligible for pickup exactly when it is scheduled and
  today's date is on or after its start date. The code, in a browser west of UTC: at noon
  of day 20097 a scheduled reservation that starts on day 20098 is eligible.
\<close>

theorem isPickupEligible_day_before_start:
  "status starts_tomorrow = R_agendado
   \<and> local_day brazil_noon < start_date starts_tomorrow
   \<and> isPickupEligible brazil_noon starts_tomorrow"
  by (simp add: isPickupEligible_days local_day_def new_Date_def ms_per_day_def
      brazil_noon_def all_ok_def starts_tomorrow_def booked_10_12_def)

section \<open>Effects of the backend calls\<close>

named_theorems run

lemma issue_fields [run]:
  "reservations (issue c w) = reservations w"
  "equipment_rows (issue c w) = equipment_rows w"
  "kit_equipment_rows (issue c w) = kit_equipment_rows w"
  "bucket (issue c w) = bucket w"
  "console (issue c w) = console w"
  "calls (issue c w) = calls w @ [c]"
  by (simp_all add: issue_def)

lemma uploadImage_fields [run]:
  "reservations (snd (uploadImage net photo folder w)) = reservations w"
  "equipment_rows (snd (uploadImage net photo folder w)) = equipment_rows w"
  "kit_equipment_rows (snd (uploadImage net photo folder w)) = kit_equipment_rows w"
  "console (snd (uploadImage net photo folder w)) = console w"
  "calls (snd (uploadImage net photo folder w)) = calls w @ [StorageUpload folder photo]"
  by (simp_all add: uploadImage_def Let_def issue_fields)

lemma uploadAll_fields [run]:
  "reservations (snd (uploadAll net folder photos w)) = reservations w"
  "equipment_rows (snd (uploadAll net folder photos w)) = equipment_rows w"
  "kit_equipment_rows (snd (uploadAll net folder photos w)) = kit_equipment_rows w"
  "console (snd (uploadAll net folder photos w)) = console w"
  "calls (snd (uploadAll net folder photos w)) = calls w @ map (StorageUpload folder) photos"
  by (induction photos arbitrary: w; simp add: split_beta Let_def uploadImage_fields)+

lemma uploadAll_Inr:
  "fst (uploadAll net folder photos w) = Inr urls \<Longrightarrow> urls = map (publicUrl net folder) photos"
  by (induction photos arbitrary: w urls)
     (auto simp: split_beta Let_def uploadImage_def split: sum.splits if_splits)

lemma uploadAll_ok:
  "(\<And>photo. photo \<in> set photos \<Longrightarrow> ok net (StorageUpload folder photo)) \<Longrightarrow>
     fst (uploadAll net folder photos w) = Inr (map (publicUrl net folder) photos)"
  by (induction photos arbitrary: w)
     (auto simp: split_beta Let_def uploadImage_def split: sum.splits if_splits)

lemma update_reservation_fields [run]:
  "fst (update_reservation net i p w)
     = (if ok net (UpdateReservation i p) then None else Some UpdateError)"
  "reservations (snd (update_reservation net i p w))
     = (if ok net (UpdateReservation i p)
        then map (\<lambda>r. if rid r = i then apply_patch p r else r) (reservations w)
        else reservations w)"
  "equipment_rows (snd (update_reservation net i p w)) = equipment_rows w"
  "kit_equipment_rows (snd (update_reservation net i p w)) = kit_equipment_rows w"
  "console (snd (update_reservation net i p w)) = console w"
  "calls (snd (update_reservation net i p w)) = calls w @ [UpdateReservation i p]"
  by (simp_all add: update_reservation_def Let_def issue_fields)

lemma update_equipment_fields [run]:
  "reservations (update_equipment net ids st w) = reservations w"
  "equipment_rows (update_equipment net ids st w)
     = (if ok net (UpdateEquipment ids st)
        then map (\<lambda>e. if eid e \<in> set ids then e\<lparr>estatus := st\<rparr> else e) (equipment_rows w)
        else equipment_rows w)"
  "kit_equipment_rows (update_equipment net ids st w) = kit_equipment_rows w"
  "console (update_equipment net ids st w) = console w"
  "calls (update_equipment net ids st w) = calls w @ [UpdateEquipment ids st]"
  by (simp_all add: update_equipment_def Let_def issue_fields)

lemma update_kit_members_fields [run]:
  "reservations (update_kit_members net k st w) = reservations w"
  "equipment_rows (update_kit_members net k st w)
     = (if ok net (SelectKitEquipment k) \<and> ok net (UpdateEquipment (member_ids k w) st)
        then map (\<lambda>e. if eid e \<in> set (member_ids k w) then e\<lparr>estatus := st\<rparr> else e)
               (equipment_rows w)
        else equipment_rows w)"
  "kit_equipment_rows (update_kit_members net k st w) = kit_equipment_rows w"
  "console (update_kit_members net k st w) = console w"
  "calls (update_kit_members net k st w)
     = calls w @ SelectKitEquipment k #
         (if ok net (SelectKitEquipment k) then [UpdateEquipment (member_ids k w) st] else [])"
  by (simp_all add: update_kit_members_def select_kit_equipment_def member_ids_def Let_def
      update_equipment_fields issue_fields)

lemma sendSummaryEmail_fields [run]:
  "reservations (sendSummaryEmail net prof r w) = reservations w"
  "equipment_rows (sendSummaryEmail net prof r w) = equipment_rows w"
  "kit_equipment_rows (sendSummaryEmail net prof r w) = kit_equipment_rows w"
  "calls (sendSummaryEmail net (Some p) r w) = calls w @ [PostSummaryEmail (rid r)]"
  "console (sendSummaryEmail net (Some p) r w)
     = console w @ (case fetch net of
                      NetworkError \<Rightarrow> [ErrorCallingEmailFunction]
                    | HttpResponse response_ok \<Rightarrow>
                        if response_ok then [] else [ErrorSendingEmail])"
  by (simp_all add: sendSummaryEmail_def Let_def issue_fields
      split: option.splits fetch_result.splits)


lemma insert_reservation_fields [run]:
  "fst (insert_reservation net d w)
     = (if ok net (InsertReservation d) \<and> table_constraints d then None else Some InsertError)"
  "reservations (snd (insert_reservation net d w))
     = (if ok net (InsertReservation d) \<and> table_constraints d
        then reservations w @ [new_row net d] else reservations w)"
  "equipment_rows (snd (insert_reservation net d w)) = equipment_rows w"
  "kit_equipment_rows (snd (insert_reservation net d w)) = kit_equipment_rows w"
  "console (snd (insert_reservation net d w)) = console w"
  "calls (snd (insert_reservation net d w)) = calls w @ [InsertReservation d]"
  by (simp_all add: insert_reservation_def Let_def issue_fields)

lemma checkAvailability_fields [run]:
  "reservations (snd (checkAvailability net rt f w)) = reservations w"
  "equipment_rows (snd (checkAvailability net rt f w)) = equipment_rows w"
  "kit_equipment_rows (snd (checkAvailability net rt f w)) = kit_equipment_rows w"
  "console (snd (checkAvailability net rt f w)) = console w"
  by (simp_all add: checkAvailability_def Let_def issue_fields)





lemma find_rid: "find (\<lambda>r. rid r = sel) rs = Some reservation \<Longrightarrow> rid reservation = sel"
  by (auto simp: find_Some_iff)

lemma handlePickup_run:
  assumes "sel \<noteq> []" "photos \<noteq> []" "find (\<lambda>r. rid r = sel) rs = Some reservation"
    and "\<forall>c. ok net c"
  shows "fst (handlePickup net (Some p) rs sel photos w) = Inr ()"
    and "reservations (snd (handlePickup net (Some p) rs sel photos w))
         = map (\<lambda>r. if rid r = sel
                     then r\<lparr>status := R_em_uso,
                            pickup_photos := map (publicUrl net (''reservations/'' @ pid p)) photos,
                            pickup_completed := True,
                            pickup_date := Some (now net div ms_per_day),
                            email_sent := True\<rparr>
                     else r) (reservations w)"
    and "equipment_rows (snd (handlePickup net (Some p) rs sel photos w))
         = (if truthy (equipment_id reservation)
            then map (\<lambda>e. if eid e = the (equipment_id reservation)
                           then e\<lparr>estatus := E_em_uso\<rparr> else e) (equipment_rows w)
            else if truthy (kit_id reservation)
            then map (\<lambda>e. if eid e \<in> set (member_ids (the (kit_id reservation)) w)
                           then e\<lparr>estatus := E_em_uso\<rparr> else e) (equipment_rows w)
            else equipment_rows w)"
    and "calls (snd (handlePickup net (Some p) rs sel photos w))
         = calls w @ map (StorageUpload (''reservations/'' @ pid p)) photos
           @ [UpdateReservation sel
                (PickupPatch (map (publicUrl net (''reservations/'' @ pid p)) photos)
                   (now net div ms_per_day))]
           @ (if truthy (equipment_id reservation)
              then [UpdateEquipment [the (equipment_id reservation)] E_em_uso]
              else if truthy (kit_id reservation)
              then [SelectKitEquipment (the (kit_id reservation)),
                    UpdateEquipment (member_ids (the (kit_id reservation)) w) E_em_uso]
              else [])
           @ [UpdateReservation sel EmailSentPatch, PostSummaryEmail sel]"
    and "console (snd (handlePickup net (Some p) rs sel photos w))
         = console w @ (case fetch net of
                          NetworkError \<Rightarrow> [ErrorCallingEmailFunction]
                        | HttpResponse response_ok \<Rightarrow>
                            if response_ok then [] else [ErrorSendingEmail])"
    and "kit_equipment_rows (snd (handlePickup net (Some p) rs sel photos w)) = kit_equipment_rows w"
proof -
  let ?folder = "''reservations/'' @ pid p"
  let ?run = "handlePickup net (Some p) rs sel photos w"
  have up: "fst (uploadAll net ?folder photos w) = Inr (map (publicUrl net ?folder) photos)"
    using assms(4) by (simp add: uploadAll_ok)
  have rid: "rid reservation = sel"
    using assms(3) by (rule find_rid)
  show "fst ?run = Inr ()"
    using assms up by (simp add: handlePickup_def split_beta Let_def run)
  show "reservations (snd ?run)
         = map (\<lambda>r. if rid r = sel
                     then r\<lparr>status := R_em_uso,
                            pickup_photos := map (publicUrl net ?folder) photos,
                            pickup_completed := True,
                            pickup_date := Some (now net div ms_per_day),
                            email_sent := True\<rparr>
                     else r) (reservations w)"
    using assms up by (simp add: handlePickup_def split_beta Let_def run apply_patch_def)
  show "equipment_rows (snd ?run)
         = (if truthy (equipment_id reservation)
            then map (\<lambda>e. if eid e = the (equipment_id reservation)
                           then e\<lparr>estatus := E_em_uso\<rparr> else e) (equipment_rows w)
            else if truthy (kit_id reservation)
            then map (\<lambda>e. if eid e \<in> set (member_ids (the (kit_id reservation)) w)
                           then e\<lparr>estatus := E_em_uso\<rparr> else e) (equipment_rows w)
            else equipment_rows w)"
    using assms up by (simp add: handlePickup_def split_beta Let_def run member_ids_def)
  show "calls (snd ?run)
         = calls w @ map (StorageUpload ?folder) photos
           @ [UpdateReservation sel
                (PickupPatch (map (publicUrl net ?folder) photos) (now net div ms_per_day))]
           @ (if truthy (equipment_id reservation)
              then [UpdateEquipment [the (equipment_id reservation)] E_em_uso]
              else if truthy (kit_id reservation)
              then [SelectKitEquipment (the (kit_id reservation)),
                    UpdateEquipment (member_ids (the (kit_id reservation)) w) E_em_uso]
              else [])
           @ [UpdateReservation sel EmailSentPatch, PostSummaryEmail sel]"
    using assms up rid by (simp add: handlePickup_def split_beta Let_def run member_ids_def)
  show "console (snd ?run)
         = console w @ (case fetch net of
                          NetworkError \<Rightarrow> [ErrorCallingEmailFunction]
                        | HttpResponse response_ok \<Rightarrow>
                            if response_ok then [] else [ErrorSendingEmail])"
    using assms up by (simp add: handlePickup_def split_beta Let_def run)
  show "kit_equipment_rows (snd (handlePickup net (Some p) rs sel photos w)) = kit_equipment_rows w"
    using assms up by (simp add: handlePickup_def split_beta Let_def run)
qed


lemma uploadImage_fetch:
  "uploadImage (net\<lparr>fetch := fr\<rparr>) photo folder w = uploadImage net photo folder w"
  by (simp add: uploadImage_def Let_def)

lemma uploadAll_fetch:
  "uploadAll (net\<lparr>fetch := fr\<rparr>) folder photos w = uploadAll net folder photos w"
  by (induction photos arbitrary: w) (simp_all add: uploadImage_fetch)

lemma fetch_irrelevant:
  "update_reservation (net\<lparr>fetch := fr\<rparr>) i pt w = update_reservation net i pt w"
  "update_equipment (net\<lparr>fetch := fr\<rparr>) ids st w = update_equipment net ids st w"
  "update_kit_members (net\<lparr>fetch := fr\<rparr>) k st w = update_kit_members net k st w"
  by (simp_all add: update_reservation_def update_equipment_def update_kit_members_def
      select_kit_equipment_def Let_def)

lemma handlePickup_outcomes:
  obtains
    (refused) e where "handlePickup net prof rs sel photos w = (Inl e, w)"
      and "\<And>fr. handlePickup (net\<lparr>fetch := fr\<rparr>) prof rs sel photos w = (Inl e, w)"
  | (upload_failed) p e where "prof = Some p"
      and "handlePickup net prof rs sel photos w
             = (Inl e, snd (uploadAll net (''reservations/'' @ pid p) photos w))"
      and "\<And>fr. handlePickup (net\<lparr>fetch := fr\<rparr>) prof rs sel photos w
             = (Inl e, snd (uploadAll net (''reservations/'' @ pid p) photos w))"
  | (picked_up) p reservation urls w1 w2 w3 w4 where
        "w1 = snd (uploadAll net (''reservations/'' @ pid p) photos w)"
        "w2 = snd (update_reservation net sel (PickupPatch urls (now net div ms_per_day)) w1)"
        "w3 = (if truthy (equipment_id reservation)
               then update_equipment net [the (equipment_id reservation)] E_em_uso w2
               else if truthy (kit_id reservation)
               then update_kit_members net (the (kit_id reservation)) E_em_uso w2
               else w2)"
        "w4 = snd (update_reservation net sel EmailSentPatch w3)"
        "prof = Some p" "sel \<noteq> []" "photos \<noteq> []"
        "find (\<lambda>r. rid r = sel) rs = Some reservation"
        "fst (uploadAll net (''reservations/'' @ pid p) photos w) = Inr urls"
        "handlePickup net prof rs sel photos w
           = (Inr (), sendSummaryEmail net (Some p) reservation w4)"
        "\<And>fr. handlePickup (net\<lparr>fetch := fr\<rparr>) prof rs sel photos w
           = (Inr (), sendSummaryEmail (net\<lparr>fetch := fr\<rparr>) (Some p) reservation w4)"
proof (cases "sel = [] \<or> photos = []")
  case True
  then show ?thesis
    by (intro refused [of "if sel = [] then NoPickupSelection else NoPickupPhoto"])
       (auto simp add: handlePickup_def)
next
  case guards: False
  show ?thesis
  proof (cases "find (\<lambda>r. rid r = sel) rs")
    case None
    with guards show ?thesis
      by (intro refused [of ReservationNotFound]) (simp_all add: handlePickup_def)
  next
    case found: (Some reservation)
    show ?thesis
    proof (cases prof)
      case None
      with guards found show ?thesis
        by (intro refused [of NotAuthenticated]) (simp_all add: handlePickup_def)
    next
      case signed_in: (Some p)
      show ?thesis
      proof (cases "fst (uploadAll net (''reservations/'' @ pid p) photos w)")
        case (Inl e)
        with guards found signed_in show ?thesis
          by (intro upload_failed [of p e])
             (simp_all add: handlePickup_def split_beta uploadAll_fetch)
      next
        case (Inr urls)
        with guards found signed_in show ?thesis
          by (intro picked_up [of _ p _ urls _ reservation, OF refl refl refl refl])
             (simp_all add: handlePickup_def split_beta Let_def uploadAll_fetch fetch_irrelevant)
      qed
    qed
  qed
qed

lemma sendSummaryEmail_fetch:
  "reservations (sendSummaryEmail (net\<lparr>fetch := fr\<rparr>) prof r w) = reservations w"
  "equipment_rows (sendSummaryEmail (net\<lparr>fetch := fr\<rparr>) prof r w) = equipment_rows w"
  "kit_equipment_rows (sendSummaryEmail (net\<lparr>fetch := fr\<rparr>) prof r w) = kit_equipment_rows w"
  "bucket (sendSummaryEmail net prof r w) = bucket w"
  "calls (sendSummaryEmail (net\<lparr>fetch := fr\<rparr>) prof r w) = calls (sendSummaryEmail net prof r w)"
  by (simp_all add: sendSummaryEmail_def Let_def issue_def
      split: option.splits fetch_result.splits)

lemma handlePickup_fetch:
  "fst (handlePickup (net\<lparr>fetch := fr\<rparr>) prof rs sel photos w)
     = fst (handlePickup net prof rs sel photos w)
   \<and> reservations (snd (handlePickup (net\<lparr>fetch := fr\<rparr>) prof rs sel photos w))
     = reservations (snd (handlePickup net prof rs sel photos w))
   \<and> equipment_rows (snd (handlePickup (net\<lparr>fetch := fr\<rparr>) prof rs sel photos w))
     = equipment_rows (snd (handlePickup net prof rs sel photos w))
   \<and> bucket (snd (handlePickup (net\<lparr>fetch := fr\<rparr>) prof rs sel photos w))
     = bucket (snd (handlePickup net prof rs sel photos w))
   \<and> calls (snd (handlePickup (net\<lparr>fetch := fr\<rparr>) prof rs sel photos w))
     = calls (snd (handlePickup net prof rs sel photos w))"
proof (cases rule: handlePickup_outcomes [of net prof rs sel photos w])
  case (refused e)
  then show ?thesis by simp
next
  case (upload_failed p e)
  then show ?thesis by simp
next
  case (picked_up p reservation urls w1 w2 w3 w4)
  from picked_up(11) [of fr] picked_up(10) show ?thesis
    by (simp add: sendSummaryEmail_fetch sendSummaryEmail_fields(1-3))
qed

lemma email_sent_marked:
  "\<forall>r \<in> set (map (\<lambda>r. if rid r = sel then r\<lparr>email_sent := True\<rparr> else r) xs).
     rid r = sel \<longrightarrow> email_sent r"
proof (intro ballI impI)
  fix r
  assume mem: "r \<in> set (map (\<lambda>r. if rid r = sel then r\<lparr>email_sent := True\<rparr> else r) xs)"
    and sel: "rid r = sel"
  from mem obtain x where x: "r = (if rid x = sel then x\<lparr>email_sent := True\<rparr> else x)"
    unfolding set_map by (rule imageE)
  show "email_sent r"
  proof (cases "rid x = sel")
    case True
    with x show ?thesis by simp
  next
    case False
    with x sel show ?thesis by simp
  qed
qed

text \<open>
  A Pickup that passes its checks, when the backend performs the uploads: it succeeds
  whatever becomes of its two updates of the reservation, whose answers it does not read.
\<close>

lemma handlePickup_performed:
  assumes "sel \<noteq> []" "photos \<noteq> []" "find (\<lambda>r. rid r = sel) rs = Some reservation"
    and "\<forall>photo \<in> set photos. ok net (StorageUpload (''reservations/'' @ pid p) photo)"
  shows "fst (handlePickup net (Some p) rs sel photos w) = Inr ()"
    and "reservations (snd (handlePickup net (Some p) rs sel photos w))
         = (if ok net (UpdateReservation sel EmailSentPatch)
            then map (\<lambda>r. if rid r = sel then r\<lparr>email_sent := True\<rparr> else r)
            else (\<lambda>rows. rows))
             (if ok net (UpdateReservation sel
                          (PickupPatch (map (publicUrl net (''reservations/'' @ pid p)) photos)
                             (now net div ms_per_day)))
              then map (\<lambda>r. if rid r = sel
                              then r\<lparr>status := R_em_uso,
                                     pickup_photos :=
                                       map (publicUrl net (''reservations/'' @ pid p)) photos,
                                     pickup_completed := True,
                                     pickup_date := Some (now net div ms_per_day)\<rparr>
                              else r) (reservations w)
              else reservations w)"
    and "calls (snd (handlePickup net (Some p) rs sel photos w))
         = calls w @ map (StorageUpload (''reservations/'' @ pid p)) photos
           @ [UpdateReservation sel
                (PickupPatch (map (publicUrl net (''reservations/'' @ pid p)) photos)
                   (now net div ms_per_day))]
           @ (if truthy (equipment_id reservation)
              then [UpdateEquipment [the (equipment_id reservation)] E_em_uso]
              else if truthy (kit_id reservation)
              then SelectKitEquipment (the (kit_id reservation))
                   # (if ok net (SelectKitEquipment (the (kit_id reservation)))
                      then [UpdateEquipment (member_ids (the (kit_id reservation)) w) E_em_uso]
                      else [])
              else [])
           @ [UpdateReservation sel EmailSentPatch, PostSummaryEmail sel]"
proof -
  let ?folder = "''reservations/'' @ pid p"
  have up: "fst (uploadAll net ?folder photos w) = Inr (map (publicUrl net ?folder) photos)"
    using assms(4) by (simp add: uploadAll_ok)
  have rid: "rid reservation = sel"
    using assms(3) by (rule find_rid)
  show "calls (snd (handlePickup net (Some p) rs sel photos w))
         = calls w @ map (StorageUpload ?folder) photos
           @ [UpdateReservation sel
                (PickupPatch (map (publicUrl net ?folder) photos) (now net div ms_per_day))]
           @ (if truthy (equipment_id reservation)
              then [UpdateEquipment [the (equipment_id reservation)] E_em_uso]
              else if truthy (kit_id reservation)
              then SelectKitEquipment (the (kit_id reservation))
                   # (if ok net (SelectKitEquipment (the (kit_id reservation)))
                      then [UpdateEquipment (member_ids (the (kit_id reservation)) w) E_em_uso]
                      else [])
              else [])
           @ [UpdateReservation sel EmailSentPatch, PostSummaryEmail sel]"
    using assms(1-3) up rid by (simp add: handlePickup_def split_beta Let_def run member_ids_def)
  show "fst (handlePickup net (Some p) rs sel photos w) = Inr ()"
    using assms(1-3) up by (simp add: handlePickup_def split_beta Let_def run)
  show "reservations (snd (handlePickup net (Some p) rs sel photos w))
         = (if ok net (UpdateReservation sel EmailSentPatch)
            then map (\<lambda>r. if rid r = sel then r\<lparr>email_sent := True\<rparr> else r)
            else (\<lambda>rows. rows))
             (if ok net (UpdateReservation sel
                          (PickupPatch (map (publicUrl net ?folder) photos)
                             (now net div ms_per_day)))
              then map (\<lambda>r. if rid r = sel
                              then r\<lparr>status := R_em_uso,
                                     pickup_photos := map (publicUrl net ?folder) photos,
                                     pickup_completed := True,
                                     pickup_date := Some (now net div ms_per_day)\<rparr>
                              else r) (reservations w)
              else reservations w)"
    using assms(1-3) up by (simp add: handlePickup_def split_beta Let_def run apply_patch_def)
qed


section \<open>Properties of the handlers\<close>

text \<open>
  C8. Create, Pickup and Return with an empty photo list fail before any remote call: the
  result is an error raised by the checks that open the handler (the missing photo, or a
  check placed before it: no signed-in user in Create, no selected reservation in Pickup
  and Return), and the state, with its tables, bucket and record of issued calls, is as
  before.
\<close>

theorem empty_photo_list_fails_before_remote_calls:
  "handleSubmit net prof rt f [] w
     = (Inl (case prof of None \<Rightarrow> NotAuthenticated | Some p \<Rightarrow> NoPickupPhoto), w)
   \<and> handlePickup net prof rs sel [] w
     = (Inl (if sel = [] then NoPickupSelection else NoPickupPhoto), w)
   \<and> handleReturn net rs sel [] w
     = (Inl (if sel = [] then NoReturnSelection else NoReturnPhoto), w)"
  by (simp add: handleSubmit_def handlePickup_def handleReturn_def split: option.splits)

section \<open>The concrete states, evaluated\<close>

lemma all_ok_performs: "\<forall>c. ok all_ok c"
  by (simp add: all_ok_def)






section \<open>Return\<close>




section \<open>Pickup\<close>

text \<open>
  C7. In a Pickup that passes its checks, the outcome of the notification POST changes
  neither the result nor the reservation rows, the equipment rows or the calls issued:
  they are those of a pickup whose POST is answered OK. When the backend performs every
  call, then whatever the POST does the handler succeeds, the reservation row is in use and
  holds the URLs of the pickup photos, the target equipment rows are in use, the POST is
  issued once, as the last call, and a failed POST leaves one entry on the console.
\<close>

theorem handlePickup_survives_notification_failure:
  assumes "sel \<noteq> []" and "photos \<noteq> []"
    and "find (\<lambda>r. rid r = sel) rs = Some reservation"
  shows "fst (handlePickup (net\<lparr>fetch := outcome\<rparr>) (Some p) rs sel photos w)
           = fst (handlePickup (net\<lparr>fetch := HttpResponse True\<rparr>) (Some p) rs sel photos w)
     \<and> reservations (snd (handlePickup (net\<lparr>fetch := outcome\<rparr>) (Some p) rs sel photos w))
         = reservations
             (snd (handlePickup (net\<lparr>fetch := HttpResponse True\<rparr>) (Some p) rs sel photos w))
     \<and> equipment_rows (snd (handlePickup (net\<lparr>fetch := outcome\<rparr>) (Some p) rs sel photos w))
         = equipment_rows
             (snd (handlePickup (net\<lparr>fetch := HttpResponse True\<rparr>) (Some p) rs sel photos w))
     \<and> calls (snd (handlePickup (net\<lparr>fetch := outcome\<rparr>) (Some p) rs sel photos w))
         = calls (snd (handlePickup (net\<lparr>fetch := HttpResponse True\<rparr>) (Some p) rs sel photos w))
     \<and> ((\<forall>c. ok net c) \<longrightarrow>
          fst (handlePickup (net\<lparr>fetch := outcome\<rparr>) (Some p) rs sel photos w) = Inr ()
          \<and> reservations (snd (handlePickup (net\<lparr>fetch := outcome\<rparr>) (Some p) rs sel photos w))
              = map (\<lambda>r. if rid r = sel
                          then r\<lparr>status := R_em_uso,
                                 pickup_photos :=
                                   map (publicUrl net (''reservations/'' @ pid p)) photos,
                                 pickup_completed := True,
                                 pickup_date := Some (now net div ms_per_day),
                                 email_sent := True\<rparr>
                          else r) (reservations w)
          \<and> equipment_rows
                (snd (handlePickup (net\<lparr>fetch := outcome\<rparr>) (Some p) rs sel photos w))
              = (if truthy (equipment_id reservation)
                 then map (\<lambda>e. if eid e = the (equipment_id reservation)
                                then e\<lparr>estatus := E_em_uso\<rparr> else e) (equipment_rows w)
                 else if truthy (kit_id reservation)
                 then map (\<lambda>e. if eid e \<in> set (member_ids (the (kit_id reservation)) w)
                                then e\<lparr>estatus := E_em_uso\<rparr> else e) (equipment_rows w)
                 else equipment_rows w)
          \<and> calls (snd (handlePickup (net\<lparr>fetch := outcome\<rparr>) (Some p) rs sel photos w))
              = calls w @ map (StorageUpload (''reservations/'' @ pid p)) photos
                @ [UpdateReservation sel
                     (PickupPatch (map (publicUrl net (''reservations/'' @ pid p)) photos)
                        (now net div ms_per_day))]
                @ (if truthy (equipment_id reservation)
                   then [UpdateEquipment [the (equipment_id reservation)] E_em_uso]
                   else if truthy (kit_id reservation)
                   then [SelectKitEquipment (the (kit_id reservation)),
                         UpdateEquipment (member_ids (the (kit_id reservation)) w) E_em_uso]
                   else [])
                @ [UpdateReservation sel EmailSentPatch, PostSummaryEmail sel]
          \<and> console (snd (handlePickup (net\<lparr>fetch := outcome\<rparr>) (Some p) rs sel photos w))
              = console w @ (case outcome of
                               NetworkError \<Rightarrow> [ErrorCallingEmailFunction]
                             | HttpResponse response_ok \<Rightarrow>
                                 if response_ok then [] else [ErrorSendingEmail]))"
proof -
  note same =
    handlePickup_fetch [where net = net and fr = outcome and prof = "Some p" and w = w]
    handlePickup_fetch [where net = net and fr = "HttpResponse True" and prof = "Some p" and w = w]
  have performed: "\<forall>c. ok (net\<lparr>fetch := outcome\<rparr>) c" if "\<forall>c. ok net c"
    using that by simp
  show ?thesis
    apply (intro conjI impI)
    subgoal using same by simp
    subgoal using same by simp
    subgoal using same by simp
    subgoal using same by simp
    subgoal premises all
      using handlePickup_run(1) [OF assms performed [OF all], of p w] by simp
    subgoal premises all
      using handlePickup_run(2) [OF assms performed [OF all], of p w] by simp
    subgoal premises all
      using handlePickup_run(3) [OF assms performed [OF all], of p w] by simp
    subgoal premises all
      using handlePickup_run(4) [OF assms performed [OF all], of p w] by simp
    subgoal premises all
      using handlePickup_run(5) [OF assms performed [OF all], of p w] by simp
    done
qed

theorem handlePickup_survives_notification_failure_witness:
  "fetch offline_mail = NetworkError
   \<and> fst (handlePickup offline_mail (Some user_u1) [booked_10_12] ''r1'' [''p.jpg''] world_10_12)
       = Inr ()
   \<and> map status (reservations
         (snd (handlePickup offline_mail (Some user_u1) [booked_10_12] ''r1'' [''p.jpg'']
                 world_10_12)))
       = [R_em_uso]
   \<and> map pickup_photos (reservations
         (snd (handlePickup offline_mail (Some user_u1) [booked_10_12] ''r1'' [''p.jpg'']
                 world_10_12)))
       = [[''reservations/u1/p.jpg'']]
   \<and> map estatus (equipment_rows
         (snd (handlePickup offline_mail (Some user_u1) [booked_10_12] ''r1'' [''p.jpg'']
                 world_10_12)))
       = [E_em_uso]
   \<and> calls (snd (handlePickup offline_mail (Some user_u1) [booked_10_12] ''r1'' [''p.jpg'']
                   world_10_12))
       = [StorageUpload ''reservations/u1'' ''p.jpg'',
          UpdateReservation ''r1'' (PickupPatch [''reservations/u1/p.jpg''] 0),
          UpdateEquipment [''e1''] E_em_uso,
          UpdateReservation ''r1'' EmailSentPatch,
          PostSummaryEmail ''r1'']
   \<and> console (snd (handlePickup offline_mail (Some user_u1) [booked_10_12] ''r1'' [''p.jpg'']
                     world_10_12))
       = [ErrorCallingEmailFunction]"
proof -
  have found: "find (\<lambda>r. rid r = ''r1'') [booked_10_12] = Some booked_10_12"
    by (simp add: booked_10_12_def)
  have chosen: "''r1'' \<noteq> []" and photo: "[''p.jpg''] \<noteq> []"
    by simp_all
  note inst = handlePickup_survives_notification_failure
      [OF chosen photo found, where net = all_ok and outcome = NetworkError
         and p = user_u1 and w = world_10_12]
  note performed = inst [THEN conjunct2, THEN conjunct2, THEN conjunct2, THEN conjunct2,
      THEN mp, OF all_ok_performs]
  note result = performed [THEN conjunct1]
  note rows = performed [THEN conjunct2, THEN conjunct1]
  note shelf = performed [THEN conjunct2, THEN conjunct2, THEN conjunct1]
  note issued = performed [THEN conjunct2, THEN conjunct2, THEN conjunct2, THEN conjunct1]
  note logged = performed [THEN conjunct2, THEN conjunct2, THEN conjunct2, THEN conjunct2]
  have unreachable: "fetch offline_mail = NetworkError"
    by (simp add: offline_mail_def)
  have succeeded:
    "fst (handlePickup offline_mail (Some user_u1) [booked_10_12] ''r1'' [''p.jpg''] world_10_12)
       = Inr ()"
    unfolding offline_mail_def by (rule result)
  have in_use:
    "map status (reservations
         (snd (handlePickup offline_mail (Some user_u1) [booked_10_12] ''r1'' [''p.jpg'']
                 world_10_12)))
       = [R_em_uso]"
    unfolding offline_mail_def rows by (simp add: world_10_12_def booked_10_12_def)
  have photos:
    "map pickup_photos (reservations
         (snd (handlePickup offline_mail (Some user_u1) [booked_10_12] ''r1'' [''p.jpg'']
                 world_10_12)))
       = [[''reservations/u1/p.jpg'']]"
    unfolding offline_mail_def rows
    by (simp add: world_10_12_def booked_10_12_def all_ok_def user_u1_def)
  have flipped:
    "map estatus (equipment_rows
         (snd (handlePickup offline_mail (Some user_u1) [booked_10_12] ''r1'' [''p.jpg'']
                 world_10_12)))
       = [E_em_uso]"
    unfolding offline_mail_def shelf
    by (simp add: truthy_def world_10_12_def booked_10_12_def cam_available_def)
  have trace:
    "calls (snd (handlePickup offline_mail (Some user_u1) [booked_10_12] ''r1'' [''p.jpg'']
                   world_10_12))
       = [StorageUpload ''reservations/u1'' ''p.jpg'',
          UpdateReservation ''r1'' (PickupPatch [''reservations/u1/p.jpg''] 0),
          UpdateEquipment [''e1''] E_em_uso,
          UpdateReservation ''r1'' EmailSentPatch,
          PostSummaryEmail ''r1'']"
    unfolding offline_mail_def issued
    by (simp add: truthy_def world_10_12_def booked_10_12_def all_ok_def user_u1_def
        ms_per_day_def)
  have log:
    "console (snd (handlePickup offline_mail (Some user_u1) [booked_10_12] ''r1'' [''p.jpg'']
                     world_10_12))
       = [ErrorCallingEmailFunction]"
    unfolding offline_mail_def logged by (simp add: world_10_12_def)
  from unreachable succeeded in_use photos flipped trace log show ?thesis
    by blast
qed

text \<open>
  C10, as claimed: every Pickup that gets to the notification step has set \<open>email_sent\<close> to
  true, so the field is true after a completed pickup. A Pickup whose update
  \<open>{ email_sent: true }\<close> the backend refuses gets to the POST, its last call, and reports
  success, with the reservation in use and \<open>email_sent\<close> false.
\<close>

theorem handlePickup_succeeds_with_email_sent_false:
  "fst (handlePickup flag_rejected (Some user_u1) [booked_10_12] ''r1'' [''p.jpg''] world_10_12)
     = Inr ()
   \<and> last (calls (snd (handlePickup flag_rejected (Some user_u1) [booked_10_12] ''r1''
                          [''p.jpg''] world_10_12)))
       = PostSummaryEmail ''r1''
   \<and> map status (reservations
         (snd (handlePickup flag_rejected (Some user_u1) [booked_10_12] ''r1'' [''p.jpg'']
                 world_10_12)))
       = [R_em_uso]
   \<and> map email_sent (reservations
         (snd (handlePickup flag_rejected (Some user_u1) [booked_10_12] ''r1'' [''p.jpg'']
                 world_10_12)))
       = [False]"
proof -
  let ?run = "handlePickup flag_rejected (Some user_u1) [booked_10_12] ''r1'' [''p.jpg'']
                world_10_12"
  have found: "find (\<lambda>r. rid r = ''r1'') [booked_10_12] = Some booked_10_12"
    by (simp add: booked_10_12_def)
  have chosen: "''r1'' \<noteq> []" and photo: "[''p.jpg''] \<noteq> []"
    by simp_all
  have uploads: "\<forall>photo \<in> set [''p.jpg''].
                   ok flag_rejected (StorageUpload (''reservations/'' @ pid user_u1) photo)"
    by (simp add: flag_rejected_def all_ok_def)
  have refused: "\<not> ok flag_rejected (UpdateReservation ''r1'' EmailSentPatch)"
    by (simp add: flag_rejected_def)
  have written: "ok flag_rejected (UpdateReservation ''r1'' (PickupPatch urls day))" for urls day
    by (simp add: flag_rejected_def)
  note run = handlePickup_performed [OF chosen photo found uploads, of world_10_12]
  have posted: "last (calls (snd ?run)) = PostSummaryEmail ''r1''"
    unfolding run(3) by simp
  have in_use: "map status (reservations (snd ?run)) = [R_em_uso]"
    unfolding run(2) by (simp add: refused written world_10_12_def booked_10_12_def)
  have unmarked: "map email_sent (reservations (snd ?run)) = [False]"
    unfolding run(2) by (simp add: refused written world_10_12_def booked_10_12_def)
  from run(1) posted in_use unmarked show ?thesis
    by blast
qed

text \<open>
  C10, as amended. A Pickup that gets to the notification step (it returns success: nothing
  after the uploads throws) has issued the update \<open>{ email_sent: true }\<close> of the reservation
  as the call just before the notification POST, its last call; when the backend performs
  that update, every row of the reservation has \<open>email_sent\<close> true afterwards, whatever the
  outcome of the POST.
\<close>

theorem handlePickup_marks_email_sent_before_post:
  assumes "fst (handlePickup net prof rs sel photos w) = Inr ()"
  shows "(\<exists>before. calls (snd (handlePickup net prof rs sel photos w))
                     = before @ [UpdateReservation sel EmailSentPatch, PostSummaryEmail sel])
     \<and> (ok net (UpdateReservation sel EmailSentPatch) \<longrightarrow>
          (\<forall>r \<in> set (reservations (snd (handlePickup net prof rs sel photos w))).
             rid r = sel \<longrightarrow> email_sent r))"
proof (cases rule: handlePickup_outcomes [of net prof rs sel photos w])
  case (refused e)
  with assms show ?thesis by simp
next
  case (upload_failed p e)
  with assms show ?thesis by simp
next
  case (picked_up p reservation urls w1 w2 w3 w4)
  have "rid reservation = sel"
    using picked_up(8) by (rule find_rid)
  with picked_up(4,10)
  have issued: "\<exists>before. calls (snd (handlePickup net prof rs sel photos w))
                  = before @ [UpdateReservation sel EmailSentPatch, PostSummaryEmail sel]"
    by (simp add: sendSummaryEmail_fields(4) update_reservation_fields(6))
  have marked: "\<forall>r \<in> set (reservations (snd (handlePickup net prof rs sel photos w))).
                  rid r = sel \<longrightarrow> email_sent r"
    if sent: "ok net (UpdateReservation sel EmailSentPatch)"
  proof -
    have "reservations (snd (handlePickup net prof rs sel photos w)) = reservations w4"
      using picked_up(10) by (simp add: sendSummaryEmail_fields(1))
    also have "\<dots> = map (\<lambda>r. if rid r = sel then r\<lparr>email_sent := True\<rparr> else r)
                        (reservations w3)"
      unfolding picked_up(4) using sent
      by (simp add: update_reservation_fields(2) apply_patch_def)
    finally have after: "reservations (snd (handlePickup net prof rs sel photos w))
        = map (\<lambda>r. if rid r = sel then r\<lparr>email_sent := True\<rparr> else r) (reservations w3)" .
    show ?thesis
      unfolding after by (rule email_sent_marked)
  qed
  from issued marked show ?thesis
    by blast
qed

theorem handlePickup_marks_email_sent_before_post_witness:
  "fetch offline_mail = NetworkError
   \<and> ok offline_mail (UpdateReservation ''r1'' EmailSentPatch)
   \<and> fst (handlePickup offline_mail (Some user_u1) [booked_10_12] ''r1'' [''p.jpg''] world_10_12)
       = Inr ()
   \<and> map rid (reservations
         (snd (handlePickup offline_mail (Some user_u1) [booked_10_12] ''r1'' [''p.jpg'']
                 world_10_12)))
       = [''r1'']
   \<and> list_all email_sent (reservations
         (snd (handlePickup offline_mail (Some user_u1) [booked_10_12] ''r1'' [''p.jpg'']
                 world_10_12)))"
proof -
  let ?after = "snd (handlePickup offline_mail (Some user_u1) [booked_10_12] ''r1'' [''p.jpg'']
                       world_10_12)"
  have found: "find (\<lambda>r. rid r = ''r1'') [booked_10_12] = Some booked_10_12"
    by (simp add: booked_10_12_def)
  have performed: "\<forall>c. ok offline_mail c"
    by (simp add: offline_mail_def all_ok_def)
  have success: "fst (handlePickup offline_mail (Some user_u1) [booked_10_12] ''r1'' [''p.jpg'']
                     world_10_12) = Inr ()"
    using handlePickup_run(1) [OF _ _ found performed] by simp
  have ids: "map rid (reservations ?after) = [''r1'']"
    using handlePickup_run(2) [OF _ _ found performed, of "[''p.jpg'']" user_u1 world_10_12]
    by (simp add: world_10_12_def booked_10_12_def)
  from handlePickup_marks_email_sent_before_post [OF success] performed
  have "\<forall>r \<in> set (reservations ?after). rid r = ''r1'' \<longrightarrow> email_sent r"
    by blast
  moreover from ids have "\<forall>r \<in> set (reservations ?after). rid r = ''r1''"
    by (cases "reservations ?after") auto
  ultimately have "list_all email_sent (reservations ?after)"
    by (simp add: list_all_iff)
  with success ids performed show ?thesis
    by (simp add: offline_mail_def)
qed

section \<open>The status of an equipment row and the reservations that claim it\<close>




end
